theory Spec2Isabelle
  imports Complex_Main "HOL-Library.Multiset"
begin

section \<open>Python values used by \<open>ketos train\<close>\<close>

text \<open>
  The command \<open>train\<close> of \<open>kraken/ketos.py\<close> is embedded here. Strings are lists
  of characters read as code points below 256; Python integers are \<open>int\<close>; Python
  floats that are finite are rationals (every finite double is one).
\<close>

type_synonym pyfloat = rat

text \<open>
  The exceptions \<open>train\<close> can end with. \<open>BadOptionUsage\<close> carries the positional
  arguments the source passes to \<open>click.BadOptionUsage\<close>, with the message formatted.
  The constructor of click is not part of the file and is not modelled: line 95 passes
  an option name and a message, lines 101, 105 and 128 pass a message alone, and a
  click whose constructor takes both would raise \<open>TypeError\<close> at the one-argument
  calls. What is proved below of a rejection is that the \<open>raise\<close> statement is
  reached, with these arguments. \<open>External\<close> is any
  exception below \<open>Exception\<close> raised inside an external capability (network,
  corpus, evaluation); \<open>Interrupt\<close> is one that is not below \<open>Exception\<close>
  (\<open>KeyboardInterrupt\<close>, \<open>SystemExit\<close>).
\<close>

datatype exn =
    BadOptionUsage "string list"
  | IndexError
  | AttributeError
  | ZeroDivisionError
  | KrakenInputException string "nat list"
  | External string
  | Interrupt

fun is_Exception :: "exn \<Rightarrow> bool" where
  "is_Exception Interrupt = False"
| "is_Exception e = True"

text \<open>Python slicing \<open>xs[lo:hi]\<close> with step 1; \<open>None\<close> is an omitted bound.\<close>

definition slice_index :: "int \<Rightarrow> int \<Rightarrow> int" where
  "slice_index i n = (if i < 0 then max (i + n) 0 else min i n)"

definition py_slice :: "int option \<Rightarrow> int option \<Rightarrow> 'a list \<Rightarrow> 'a list" where
  "py_slice lo hi xs =
     (let n = int (length xs);
          a = (case lo of None \<Rightarrow> 0 | Some i \<Rightarrow> slice_index i n);
          b = (case hi of None \<Rightarrow> n | Some j \<Rightarrow> slice_index j n)
      in take (nat (b - a)) (drop (nat a) xs))"

text \<open>\<open>str.strip()\<close>: the white space of Python text strings among the code points below 256.\<close>

definition is_space :: "char \<Rightarrow> bool" where
  "is_space c =
     (let k = (of_char c :: nat)
      in (9 \<le> k \<and> k \<le> 13) \<or> (28 \<le> k \<and> k \<le> 32) \<or> k = 133 \<or> k = 160)"

definition strip :: "string \<Rightarrow> string" where
  "strip s = rev (dropWhile is_space (rev (dropWhile is_space s)))"

text \<open>\<open>s.split(c)\<close> for a one-character separator: never the empty list.\<close>

fun split_on :: "char \<Rightarrow> string \<Rightarrow> string list" where
  "split_on c [] = [[]]"
| "split_on c (x # xs) =
     (if x = c then [] # split_on c xs
      else (case split_on c xs of [] \<Rightarrow> [[x]] | w # ws \<Rightarrow> (x # w) # ws))"

text \<open>
  \<open>re.match(r'(\d+),(\d+),(\d+),(\d+)', tok)\<close>: the match is anchored at the start of
  \<open>tok\<close> only. A digit run is followed by a non-digit or the end, so the greedy
  \<open>\d+\<close> never gives a digit back and the match is decided in one pass.
\<close>

definition is_digit :: "char \<Rightarrow> bool" where
  "is_digit c = (let k = (of_char c :: nat) in 48 \<le> k \<and> k \<le> 57)"

definition digit_run :: "string \<Rightarrow> (string \<times> string) option" where
  "digit_run s =
     (let g = takeWhile is_digit s
      in if g = [] then None else Some (g, dropWhile is_digit s))"

definition comma_digit_run :: "string \<Rightarrow> (string \<times> string) option" where
  "comma_digit_run s =
     (case s of [] \<Rightarrow> None
      | x # r \<Rightarrow> if x = CHR '','' then digit_run r else None)"

definition re_match_dims :: "string \<Rightarrow> (string \<times> string \<times> string \<times> string) option" where
  "re_match_dims tok =
     (case digit_run tok of None \<Rightarrow> None
      | Some (g1, r1) \<Rightarrow>
     (case comma_digit_run r1 of None \<Rightarrow> None
      | Some (g2, r2) \<Rightarrow>
     (case comma_digit_run r2 of None \<Rightarrow> None
      | Some (g3, r3) \<Rightarrow>
     (case comma_digit_run r3 of None \<Rightarrow> None
      | Some (g4, r4) \<Rightarrow> Some (g1, g2, g3, g4)))))"

text \<open>\<open>int(x)\<close> on a run of decimal digits.\<close>

definition py_int_of_digits :: "string \<Rightarrow> int" where
  "py_int_of_digits s = foldl (\<lambda>a c. 10 * a + (int (of_char c) - 48)) 0 s"

section \<open>Geometry resolution (lines 99--128 of \<open>train\<close>)\<close>

text \<open>
  \<open>scale\<close> is an integer in three branches and a pair in one; \<open>format\<close> is a triple
  of axis indices.
\<close>

datatype scale = ScaleInt int | ScaleTuple int int

record geometry =
  g_batch :: int
  g_height :: int
  g_width :: int
  g_channels :: int
  g_format :: "nat \<times> nat \<times> nat"
  g_pad :: int
  g_scale :: scale

text \<open>Line 102: \<open>spec[1:-1].split(' ')\<close>.\<close>

definition blocks_of :: "string \<Rightarrow> string list" where
  "blocks_of spec = split_on (CHR '' '') (py_slice (Some 1) (Some (- 1)) spec)"

text \<open>
  Lines 99--106: strip, bracket check, first block, regular expression, \<open>int\<close>.
  \<open>spec[0]\<close> and \<open>blocks[0]\<close> raise \<open>IndexError\<close> on an empty sequence.
\<close>

definition preparse :: "string \<Rightarrow> exn + (string \<times> int \<times> int \<times> int \<times> int)" where
  "preparse spec0 =
     (let spec = strip spec0 in
      case spec of [] \<Rightarrow> Inl IndexError
      | c0 # _ \<Rightarrow>
        if c0 \<noteq> CHR ''['' \<or> last spec \<noteq> CHR '']''
        then Inl (BadOptionUsage [''VGSL spec '' @ spec @ '' not bracketed''])
        else
          (case blocks_of spec of
             [] \<Rightarrow> Inl IndexError
           | tok # _ \<Rightarrow>
             (case re_match_dims tok of
                None \<Rightarrow> Inl (BadOptionUsage [''Invalid input spec '' @ tok])
              | Some (g1, g2, g3, g4) \<Rightarrow>
                  Inr (tok, py_int_of_digits g1, py_int_of_digits g2,
                       py_int_of_digits g3, py_int_of_digits g4))))"

text \<open>Lines 109--128: the \<open>if\<close>/\<open>elif\<close> chain, in the order of the source.\<close>

definition select_geometry ::
  "int \<Rightarrow> string \<times> int \<times> int \<times> int \<times> int \<Rightarrow> exn + geometry" where
  "select_geometry pad p =
     (case p of (tok, batch, height, width, channels) \<Rightarrow>
        if height = 1 \<and> width = 0 \<and> channels > 3 then
          Inr \<lparr>g_batch = batch, g_height = height, g_width = width, g_channels = channels,
               g_format = (1, 0, 2), g_pad = pad, g_scale = ScaleInt channels\<rparr>
        else if height > 1 \<and> width = 0 \<and> (channels = 1 \<or> channels = 3) then
          Inr \<lparr>g_batch = batch, g_height = height, g_width = width, g_channels = channels,
               g_format = (0, 1, 2), g_pad = pad, g_scale = ScaleInt height\<rparr>
        else if height > 0 \<and> width > 0 \<and> (channels = 1 \<or> channels = 3) then
          Inr \<lparr>g_batch = batch, g_height = height, g_width = width, g_channels = channels,
               g_format = (0, 1, 2), g_pad = 0, g_scale = ScaleTuple height width\<rparr>
        else if height = 0 \<and> width = 0 \<and> (channels = 1 \<or> channels = 3) then
          Inr \<lparr>g_batch = batch, g_height = height, g_width = width, g_channels = channels,
               g_format = (0, 1, 2), g_pad = 0, g_scale = ScaleInt 0\<rparr>
        else
          Inl (BadOptionUsage
                 [''Invalid input spec '' @ tok @
                  '' (variable height and fixed width not supported)'']))"

definition resolve :: "int \<Rightarrow> string \<Rightarrow> exn + geometry" where
  "resolve pad spec0 =
     (case preparse spec0 of Inl e \<Rightarrow> Inl e | Inr p \<Rightarrow> select_geometry pad p)"

text \<open>
  How the specification names the values of \<open>scale\<close> and \<open>format\<close>: the integer 0 is
  \<open>NoScale\<close>, another integer is \<open>ScaleToHeight\<close>, a pair is \<open>ScaleToFixed\<close>.
\<close>

datatype scale_mode = NoScale | ScaleToHeight int | ScaleToFixed int int

fun scale_mode_of :: "scale \<Rightarrow> scale_mode" where
  "scale_mode_of (ScaleInt v) = (if v = 0 then NoScale else ScaleToHeight v)"
| "scale_mode_of (ScaleTuple h w) = ScaleToFixed h w"

definition axis_default :: "nat \<times> nat \<times> nat" where
  "axis_default = (0, 1, 2)"

definition axis_swapped :: "nat \<times> nat \<times> nat" where
  "axis_swapped = (1, 0, 2)"

section \<open>Options, external capabilities and the trace of a run\<close>

datatype optimizer_choice = Choice_SGD | Choice_Adam | Choice_RMSprop

datatype normalization = NFD | NFKD | NFC | NFKC

text \<open>The parameters of \<open>train\<close> after option parsing (lines 71--90).\<close>

record options =
  opt_pad :: int
  opt_output :: string
  opt_spec :: string
  opt_load :: "string option"
  opt_savefreq :: pyfloat
  opt_report :: int
  opt_epochs :: int
  opt_device :: string
  opt_optimizer :: optimizer_choice
  opt_lrate :: pyfloat
  opt_wdecay :: pyfloat
  opt_partition :: pyfloat
  opt_normalization :: "normalization option"
  opt_codec :: "string option"
  opt_reorder :: bool
  opt_ground_truth :: "string list"

text \<open>The optimizers of \<open>torch.optim\<close> the module imports (line 36), with their arguments.\<close>

datatype optimizer_obj =
    Adam pyfloat pyfloat
  | SGD pyfloat pyfloat
  | RMSprop pyfloat

text \<open>
  What lies outside \<open>ketos.py\<close> is a parameter of the model: the permutation
  \<open>np.random.shuffle\<close> draws, the rounding of a float product to a double, the shape of
  the network's output for the batch of an epoch and trial, the outcome of the loss,
  backward and optimizer calls of a trial, the outcome of \<open>save_model\<close> at an epoch, and
  what \<open>compute_error\<close> returns at an epoch for the test pairs. The calls that build
  the corpora and the network are taken to return normally.
\<close>

record env =
  np_shuffle :: "string list \<Rightarrow> string list"
  float_round :: "rat \<Rightarrow> rat"
  nn_forward :: "nat \<Rightarrow> nat \<Rightarrow> exn + nat list"
  optimizer_step :: "optimizer_obj \<Rightarrow> nat \<Rightarrow> nat \<Rightarrow> exn option"
  nn_save_model :: "string \<Rightarrow> nat \<Rightarrow> exn option"
  compute_error :: "nat \<Rightarrow> string list \<Rightarrow> exn + (int \<times> int)"

text \<open>The keyword arguments of a \<open>GroundTruthDataset(...)\<close> call; \<open>None\<close> is a keyword not passed.\<close>

record dataset_args =
  a_normalization :: "normalization option"
  a_reorder :: bool
  a_scale :: "scale option"
  a_pad :: "int option"
  a_format :: "(nat \<times> nat \<times> nat) option"

datatype corpus = TrainSet | TestSet

datatype event =
    NewDataset corpus "string list" dataset_args
  | Add corpus string
  | Encode "string option"
  | LoadModel string
  | NewModel string
  | NewOptimizer optimizer_obj
  | Epoch nat
  | OptimizerStep nat nat
  | SaveModel string nat
  | SaveFailed string nat exn
  | AccuracyReport nat pyfloat int int

text \<open>A run is the events so far and the exception that ended it, if one did.\<close>

type_synonym outcome = "event list \<times> exn option"

definition raises :: "exn \<Rightarrow> outcome" where
  "raises e = ([], Some e)"

definition emit :: "event list \<Rightarrow> outcome" where
  "emit evs = (evs, None)"

definition and_then :: "outcome \<Rightarrow> outcome \<Rightarrow> outcome" where
  "and_then a b = (case snd a of Some e \<Rightarrow> a | None \<Rightarrow> (fst a @ fst b, snd b))"

section \<open>Partition and corpus construction (lines 136--154)\<close>

text \<open>\<open>int(x)\<close> of a float truncates towards zero.\<close>

definition py_int_of_float :: "pyfloat \<Rightarrow> int" where
  "py_int_of_float x = (if 0 \<le> x then \<lfloor>x\<rfloor> else \<lceil>x\<rceil>)"

text \<open>
  Lines 136--139: the shuffle, then the two slices at \<open>int(len(ground_truth) * partition)\<close>.
\<close>

definition partition_gt :: "env \<Rightarrow> pyfloat \<Rightarrow> string list \<Rightarrow> string list \<times> string list" where
  "partition_gt env ratio gt0 =
     (let ground_truth = np_shuffle env gt0;
          k = py_int_of_float (float_round env (of_nat (length ground_truth) * ratio))
      in (py_slice None (Some k) ground_truth, py_slice (Some k) None ground_truth))"

text \<open>Lines 141 and 154: the keyword arguments of the two \<open>GroundTruthDataset\<close> calls.\<close>

definition gt_set_args :: "options \<Rightarrow> geometry \<Rightarrow> dataset_args" where
  "gt_set_args opts g =
     \<lparr>a_normalization = opt_normalization opts, a_reorder = opt_reorder opts,
      a_scale = Some (g_scale g), a_pad = Some (g_pad g), a_format = Some (g_format g)\<rparr>"

definition test_set_args :: "options \<Rightarrow> geometry \<Rightarrow> dataset_args" where
  "test_set_args opts g =
     \<lparr>a_normalization = opt_normalization opts, a_reorder = opt_reorder opts,
      a_scale = None, a_pad = Some (g_pad g), a_format = Some (g_format g)\<rparr>"

section \<open>The training loop (lines 230--255)\<close>

text \<open>
  \<open>o.size(2)\<close> on a tensor, and \<open>x.size()\<close> on a Python value: a string has no
  attribute \<open>size\<close>. In line 236 the receiver is \<open>output\<close>, the path given by
  \<open>--output\<close>, a string.
\<close>

definition tensor_size_dim :: "nat list \<Rightarrow> nat \<Rightarrow> exn + nat" where
  "tensor_size_dim shape d = (if d < length shape then Inr (shape ! d) else Inl IndexError)"

datatype pyval = PyStr string | PyTensor "nat list"

fun py_size :: "pyval \<Rightarrow> exn + nat list" where
  "py_size (PyStr s) = Inl AttributeError"
| "py_size (PyTensor shape) = Inr shape"

text \<open>
  Lines 232--242, one batch. The message of line 236 is built before the raise;
  \<open>KrakenInputException\<close> carries the format string and the value formatted into it.
\<close>

definition trial_body :: "env \<Rightarrow> optimizer_obj \<Rightarrow> string \<Rightarrow> nat \<Rightarrow> nat \<Rightarrow> outcome" where
  "trial_body env optimizer output epoch trial =
     (case nn_forward env epoch trial of
        Inl e \<Rightarrow> raises e
      | Inr shape \<Rightarrow>
         (case tensor_size_dim shape 2 of
            Inl e \<Rightarrow> raises e
          | Inr d \<Rightarrow>
              if d \<noteq> 1 then
                (case py_size (PyStr output) of
                   Inl e \<Rightarrow> raises e
                 | Inr sz \<Rightarrow>
                     raises (KrakenInputException ''Expected dimension 3 to be 1, actual {}'' sz))
              else
                (case optimizer_step env optimizer epoch trial of
                   Some e \<Rightarrow> raises e
                 | None \<Rightarrow> emit [OptimizerStep epoch trial])))"

fun trials :: "env \<Rightarrow> optimizer_obj \<Rightarrow> string \<Rightarrow> nat \<Rightarrow> nat list \<Rightarrow> outcome" where
  "trials env optimizer output epoch [] = emit []"
| "trials env optimizer output epoch (t # ts) =
     and_then (trial_body env optimizer output epoch t) (trials env optimizer output epoch ts)"

text \<open>
  \<open>epoch % savefreq\<close> with a float \<open>savefreq\<close>: the exact remainder, of the sign of
  the divisor. Python rounds the remainder, but it is zero exactly when this one is.
\<close>

definition py_float_mod :: "pyfloat \<Rightarrow> pyfloat \<Rightarrow> pyfloat" where
  "py_float_mod x y = x - of_int \<lfloor>x / y\<rfloor> * y"

text \<open>Lines 243--247: \<open>except Exception\<close> catches what is below \<open>Exception\<close> only.\<close>

definition save_part :: "env \<Rightarrow> string \<Rightarrow> pyfloat \<Rightarrow> nat \<Rightarrow> outcome" where
  "save_part env output savefreq epoch =
     (if epoch = 0 then emit []
      else if savefreq = 0 then raises ZeroDivisionError
      else if py_float_mod (of_nat epoch) savefreq \<noteq> 0 then emit []
      else
        (case nn_save_model env output epoch of
           None \<Rightarrow> emit [SaveModel output epoch]
         | Some e \<Rightarrow> if is_Exception e then emit [SaveFailed output epoch e] else raises e))"

text \<open>
  Lines 251--255: \<open>(c-e)/c\<close> is a true division (line 17), rounded to a double.
  \<open>test_set.training_set\<close> (line 190) is the list of the test pairs, the same at every
  report.
\<close>

definition report_part :: "env \<Rightarrow> int \<Rightarrow> string list \<Rightarrow> nat \<Rightarrow> outcome" where
  "report_part env report test_pairs epoch =
     (if epoch = 0 then emit []
      else if report = 0 then raises ZeroDivisionError
      else if int epoch mod report \<noteq> 0 then emit []
      else
        (case compute_error env epoch test_pairs of
           Inl x \<Rightarrow> raises x
         | Inr (c, e) \<Rightarrow>
             if c = 0 then raises ZeroDivisionError
             else emit [AccuracyReport epoch (float_round env (of_int (c - e) / of_int c)) c e]))"

fun epochs_loop ::
  "env \<Rightarrow> optimizer_obj \<Rightarrow> string \<Rightarrow> pyfloat \<Rightarrow> int \<Rightarrow> nat \<Rightarrow> string list \<Rightarrow> nat list \<Rightarrow> outcome" where
  "epochs_loop env optimizer output savefreq report n_train test_pairs [] = emit []"
| "epochs_loop env optimizer output savefreq report n_train test_pairs (epoch # rest) =
     and_then (emit [Epoch epoch])
    (and_then (trials env optimizer output epoch [0..<n_train])
    (and_then (save_part env output savefreq epoch)
    (and_then (report_part env report test_pairs epoch)
              (epochs_loop env optimizer output savefreq report n_train test_pairs rest))))"

section \<open>The command \<open>train\<close> (lines 88--255)\<close>

text \<open>The truth value of \<open>load\<close>: \<open>None\<close> and the empty string are false.\<close>

fun truthy :: "string option \<Rightarrow> bool" where
  "truthy None = False"
| "truthy (Some s) = (s \<noteq> [])"

definition init_model :: "options \<Rightarrow> event" where
  "init_model opts =
     (case opt_load opts of
        None \<Rightarrow> NewModel (py_slice (Some 1) (Some (- 1)) (strip (opt_spec opts)))
      | Some p \<Rightarrow>
          if p \<noteq> [] then LoadModel p
          else NewModel (py_slice (Some 1) (Some (- 1)) (strip (opt_spec opts))))"

definition construct_optimizer :: "options \<Rightarrow> optimizer_obj" where
  "construct_optimizer opts = Adam (opt_lrate opts) (opt_wdecay opts)"

definition train :: "env \<Rightarrow> options \<Rightarrow> outcome" where
  "train env opts =
     (if truthy (opt_load opts) \<and> opt_codec opts \<noteq> None then
        raises (BadOptionUsage [''codec'', ''codec option is not supported when loading model''])
      else
        (case resolve (opt_pad opts) (opt_spec opts) of
           Inl e \<Rightarrow> raises e
         | Inr g \<Rightarrow>
            (case partition_gt env (opt_partition opts) (opt_ground_truth opts) of
               (tr_im, te_im) \<Rightarrow>
                 and_then
                   (emit (NewDataset TrainSet tr_im (gt_set_args opts g) # map (Add TrainSet) tr_im @
                          NewDataset TestSet te_im (test_set_args opts g) # map (Add TestSet) te_im @
                          [Encode (opt_codec opts), init_model opts,
                           NewOptimizer (construct_optimizer opts)]))
                   (epochs_loop env (construct_optimizer opts) (opt_output opts)
                      (opt_savefreq opts) (opt_report opts) (length tr_im) te_im
                      [0..<nat (opt_epochs opts)]))))"

text \<open>The epochs a trace went through, in order.\<close>

fun epochs_of :: "event list \<Rightarrow> nat list" where
  "epochs_of [] = []"
| "epochs_of (Epoch n # evs) = n # epochs_of evs"
| "epochs_of (ev # evs) = epochs_of evs"

section \<open>A concrete run\<close>

text \<open>
  Inputs on which the model is evaluated below: two line images, the default options of
  the command but for three epochs, and capabilities under which the shuffle reverses
  the list, products are exact, the network output has height 1, every save fails with
  an error below \<open>Exception\<close>, and evaluation counts the characters and the lines of
  the test pairs.
\<close>

definition demo_env :: env where
  "demo_env =
     \<lparr>np_shuffle = rev,
      float_round = (\<lambda>x. x),
      nn_forward = (\<lambda>epoch trial. Inr [1, 10, 1, 20]),
      optimizer_step = (\<lambda>optimizer epoch trial. None),
      nn_save_model = (\<lambda>output epoch. Some (External ''disk full'')),
      compute_error = (\<lambda>epoch pairs. Inr (int (length (concat pairs)), int (length pairs)))\<rparr>"

definition demo_opts :: options where
  "demo_opts =
     \<lparr>opt_pad = 16, opt_output = ''model'', opt_spec = ''[1,1,0,48 Lbx100]'',
      opt_load = None, opt_savefreq = 1, opt_report = 1, opt_epochs = 3,
      opt_device = ''cpu'', opt_optimizer = Choice_SGD, opt_lrate = 1 / 1000,
      opt_wdecay = 0, opt_partition = 1 / 2, opt_normalization = None,
      opt_codec = None, opt_reorder = True,
      opt_ground_truth = [''a.png'', ''b.png'']\<rparr>"

section \<open>Properties of geometry resolution\<close>

lemma foldl_digits_nonneg:
  "\<forall>c\<in>set g. is_digit c \<Longrightarrow> 0 \<le> a \<Longrightarrow>
   0 \<le> foldl (\<lambda>a c. 10 * a + (int (of_char c) - 48)) a g"
proof (induction g arbitrary: a)
  case Nil
  then show ?case by simp
next
  case (Cons x g)
  from Cons.prems have "48 \<le> (of_char x :: nat)"
    by (simp add: is_digit_def Let_def)
  with Cons.prems have "0 \<le> 10 * a + (int (of_char x) - 48)" by simp
  with Cons show ?case by simp
qed

lemma py_int_of_digits_nonneg: "\<forall>c\<in>set g. is_digit c \<Longrightarrow> 0 \<le> py_int_of_digits g"
  unfolding py_int_of_digits_def by (rule foldl_digits_nonneg) simp_all

lemma digit_run_digits: "digit_run s = Some (g, r) \<Longrightarrow> \<forall>c\<in>set g. is_digit c"
  by (auto simp: digit_run_def Let_def split: if_splits dest: set_takeWhileD)

lemma comma_digit_run_digits: "comma_digit_run s = Some (g, r) \<Longrightarrow> \<forall>c\<in>set g. is_digit c"
  by (auto simp: comma_digit_run_def split: list.splits if_splits dest: digit_run_digits)

lemma re_match_dims_digits:
  assumes "re_match_dims tok = Some (g1, g2, g3, g4)"
  shows "(\<forall>c\<in>set g1. is_digit c) \<and> (\<forall>c\<in>set g2. is_digit c) \<and>
         (\<forall>c\<in>set g3. is_digit c) \<and> (\<forall>c\<in>set g4. is_digit c)"
  using assms unfolding re_match_dims_def
  by (auto split: option.splits prod.splits dest: digit_run_digits comma_digit_run_digits)

lemma preparse_nonneg:
  assumes "preparse s = Inr (tok, b, h, w, c)"
  shows "0 \<le> b \<and> 0 \<le> h \<and> 0 \<le> w \<and> 0 \<le> c"
proof -
  from assms obtain g1 g2 g3 g4 where m: "re_match_dims tok = Some (g1, g2, g3, g4)"
    and v: "b = py_int_of_digits g1" "h = py_int_of_digits g2"
           "w = py_int_of_digits g3" "c = py_int_of_digits g4"
    unfolding preparse_def Let_def
    by (auto split: list.splits if_splits option.splits prod.splits)
  from re_match_dims_digits[OF m] v show ?thesis
    by (simp add: py_int_of_digits_nonneg)
qed

text \<open>
  C1. When lines 99--106 accept the descriptor and read the four integers
  \<open>(b, h, w, c)\<close> from its leading token, the integers are non-negative and
  resolution takes the first matching case of the chain: \<open>h = 1\<close>, \<open>w = 0\<close>, \<open>c > 3\<close>
  gives the swapped axis order and \<open>ScaleToHeight c\<close>; \<open>h > 1\<close>, \<open>w = 0\<close>, \<open>c\<close> in
  \<open>{1, 3}\<close> gives the default order and \<open>ScaleToHeight h\<close>; \<open>h > 0\<close>, \<open>w > 0\<close>, \<open>c\<close> in
  \<open>{1, 3}\<close> gives \<open>ScaleToFixed h w\<close>; \<open>h = 0\<close>, \<open>w = 0\<close>, \<open>c\<close> in \<open>{1, 3}\<close> gives
  \<open>NoScale\<close>; every other triple is rejected with \<open>BadOptionUsage\<close>.
\<close>

theorem resolve_first_matching_case:
  assumes "preparse s = Inr (tok, b, h, w, c)"
  shows "0 \<le> b \<and> 0 \<le> h \<and> 0 \<le> w \<and> 0 \<le> c \<and>
         map_sum id (\<lambda>g. (g_format g, scale_mode_of (g_scale g), g_pad g)) (resolve pad s) =
           (if h = 1 \<and> w = 0 \<and> 3 < c then Inr (axis_swapped, ScaleToHeight c, pad)
            else if 1 < h \<and> w = 0 \<and> (c = 1 \<or> c = 3) then Inr (axis_default, ScaleToHeight h, pad)
            else if 0 < h \<and> 0 < w \<and> (c = 1 \<or> c = 3) then Inr (axis_default, ScaleToFixed h w, 0)
            else if h = 0 \<and> w = 0 \<and> (c = 1 \<or> c = 3) then Inr (axis_default, NoScale, 0)
            else Inl (BadOptionUsage
                   [''Invalid input spec '' @ tok @
                    '' (variable height and fixed width not supported)'']))"
  using preparse_nonneg[OF assms] assms
  by (simp add: resolve_def select_geometry_def axis_default_def axis_swapped_def)

theorem resolve_first_matching_case_witness:
  "preparse ''[1,1,0,48 Lbx100]'' = Inr (''1,1,0,48'', 1, 1, 0, 48) \<and>
   map_sum id (\<lambda>g. (g_format g, scale_mode_of (g_scale g), g_pad g))
     (resolve 16 ''[1,1,0,48 Lbx100]'') = Inr (axis_swapped, ScaleToHeight 48, 16)"
proof -
  have p: "preparse ''[1,1,0,48 Lbx100]'' = Inr (''1,1,0,48'', 1, 1, 0, 48)" by code_simp
  from resolve_first_matching_case[OF p, of 16] p show ?thesis by simp
qed

text \<open>
  C9. For a descriptor lines 99--106 accept and resolution resolves, the padding is 0 in
  the fixed case (\<open>h > 0\<close>, \<open>w > 0\<close>) and in the no-scale case (\<open>h = 0\<close>, \<open>w = 0\<close>),
  whatever the caller passed, and it is the caller's padding in the two
  \<open>ScaleToHeight\<close> cases (\<open>h = 1\<close>, \<open>w = 0\<close> and \<open>h > 1\<close>, \<open>w = 0\<close>); these four
  are the only cases that resolve.
\<close>

theorem padding_zeroed_in_fixed_and_noscale:
  assumes "preparse s = Inr (tok, b, h, w, c)" and "resolve pad s = Inr g"
  shows "(0 < h \<and> 0 < w \<longrightarrow> scale_mode_of (g_scale g) = ScaleToFixed h w \<and> g_pad g = 0) \<and>
         (h = 0 \<and> w = 0 \<longrightarrow> scale_mode_of (g_scale g) = NoScale \<and> g_pad g = 0) \<and>
         (h = 1 \<and> w = 0 \<longrightarrow> scale_mode_of (g_scale g) = ScaleToHeight c \<and> g_pad g = pad) \<and>
         (1 < h \<and> w = 0 \<longrightarrow> scale_mode_of (g_scale g) = ScaleToHeight h \<and> g_pad g = pad) \<and>
         ((0 < h \<and> 0 < w) \<or> (h = 0 \<and> w = 0) \<or> (h = 1 \<and> w = 0) \<or> (1 < h \<and> w = 0))"
  using preparse_nonneg[OF assms(1)] assms
  by (auto simp: resolve_def select_geometry_def split: if_splits)

theorem padding_zeroed_in_fixed_and_noscale_witness:
  "(\<exists>g. resolve 16 ''[1,48,128,1]'' = Inr g \<and> scale_mode_of (g_scale g) = ScaleToFixed 48 128 \<and> g_pad g = 0) \<and>
   (\<exists>g. resolve 16 ''[1,32,0,1]'' = Inr g \<and> scale_mode_of (g_scale g) = ScaleToHeight 32 \<and> g_pad g = 16)"
proof -
  have p1: "preparse ''[1,48,128,1]'' = Inr (''1,48,128,1'', 1, 48, 128, 1)" by code_simp
  have r1: "resolve 16 ''[1,48,128,1]'' =
     Inr \<lparr>g_batch = 1, g_height = 48, g_width = 128, g_channels = 1,
          g_format = (0, 1, 2), g_pad = 0, g_scale = ScaleTuple 48 128\<rparr>" by code_simp
  have p2: "preparse ''[1,32,0,1]'' = Inr (''1,32,0,1'', 1, 32, 0, 1)" by code_simp
  have r2: "resolve 16 ''[1,32,0,1]'' =
     Inr \<lparr>g_batch = 1, g_height = 32, g_width = 0, g_channels = 1,
          g_format = (0, 1, 2), g_pad = 16, g_scale = ScaleInt 32\<rparr>" by code_simp
  from padding_zeroed_in_fixed_and_noscale[OF p1 r1] padding_zeroed_in_fixed_and_noscale[OF p2 r2] r1 r2
  show ?thesis by simp
qed

text \<open>
  C5. The specification says every malformed descriptor fails with the configuration
  error and with no other exception. A descriptor that is empty after \<open>strip\<close> is not
  wrapped in brackets, and line 100 reads \<open>spec[0]\<close> before the bracket test can raise
  its error: the result is \<open>IndexError\<close>, for every padding.
\<close>

theorem empty_descriptor_raises_index_error:
  assumes "strip s = []"
  shows "resolve pad s = Inl IndexError"
  using assms by (simp add: resolve_def preparse_def)

theorem empty_descriptor_raises_index_error_witness:
  "strip [] = [] \<and> resolve 16 [] = Inl IndexError \<and>
   strip ''  '' = [] \<and> resolve 16 ''  '' = Inl IndexError"
proof -
  have a: "strip [] = []" by (simp add: strip_def)
  have b: "strip ''  '' = []" by code_simp
  from empty_descriptor_raises_index_error[OF a, of 16]
       empty_descriptor_raises_index_error[OF b, of 16] a b
  show ?thesis by simp
qed

text \<open>
  A second departure on the same lines: \<open>re.match\<close> is anchored at the start only, so a
  leading token of five integers resolves as if it were its first four.
\<close>

lemma overlong_token_resolves:
  "blocks_of (strip ''[1,1,0,48,7]'') = [''1,1,0,48,7''] \<and>
   resolve 16 ''[1,1,0,48,7]'' =
     Inr \<lparr>g_batch = 1, g_height = 1, g_width = 0, g_channels = 48,
          g_format = (1, 0, 2), g_pad = 16, g_scale = ScaleInt 48\<rparr>"
proof -
  have b: "blocks_of (strip ''[1,1,0,48,7]'') = [''1,1,0,48,7'']" by code_simp
  have c: "resolve 16 ''[1,1,0,48,7]'' =
     Inr \<lparr>g_batch = 1, g_height = 1, g_width = 0, g_channels = 48,
          g_format = (1, 0, 2), g_pad = 16, g_scale = ScaleInt 48\<rparr>" by code_simp
  from b c show ?thesis by simp
qed

section \<open>Properties of the partition and of corpus construction\<close>

lemma py_slice_to: "py_slice None (Some k) xs = take (nat (slice_index k (int (length xs)))) xs"
  by (simp add: py_slice_def Let_def)

lemma slice_index_range: "0 \<le> n \<Longrightarrow> 0 \<le> slice_index k n \<and> slice_index k n \<le> n"
  by (simp add: slice_index_def)

lemma py_slice_from: "py_slice (Some k) None xs = drop (nat (slice_index k (int (length xs)))) xs"
  using slice_index_range[of "int (length xs)" k]
  by (simp add: py_slice_def Let_def)

lemma partition_gt_take_drop:
  "partition_gt env ratio xs =
     (let ys = np_shuffle env xs;
          j = nat (slice_index (py_int_of_float (float_round env (of_nat (length ys) * ratio)))
                     (int (length ys)))
      in (take j ys, drop j ys))"
  by (simp add: partition_gt_def Let_def py_slice_to py_slice_from)

text \<open>
  C6. Let the shuffle return a permutation of the samples, the ratio lie in \<open>(0, 1]\<close>,
  and the rounding of the float product be monotone and exact at 0 and at the number of
  samples (as rounding to the nearest double is). Then the train list is the first
  \<open>floor(len * ratio)\<close> elements of the shuffled list, with the product as the float
  multiplication gives it, the test list is the rest, the lengths add up to the number
  of samples, the two lists together hold every sample as often as the input does, and
  distinct samples land on one side only.
\<close>

theorem partition_splits_shuffled_list:
  assumes perm: "mset (np_shuffle env samples) = mset samples"
    and ratio: "0 < ratio" "ratio \<le> 1"
    and fl_mono: "\<forall>x y. x \<le> y \<longrightarrow> float_round env x \<le> float_round env y"
    and fl_zero: "float_round env 0 = 0"
    and fl_len: "float_round env (of_nat (length samples)) = of_nat (length samples)"
  shows "\<exists>tr te. partition_gt env ratio samples = (tr, te) \<and>
           tr = take (nat \<lfloor>float_round env (of_nat (length samples) * ratio)\<rfloor>) (np_shuffle env samples) \<and>
           te = drop (nat \<lfloor>float_round env (of_nat (length samples) * ratio)\<rfloor>) (np_shuffle env samples) \<and>
           length tr = nat \<lfloor>float_round env (of_nat (length samples) * ratio)\<rfloor> \<and>
           length tr + length te = length samples \<and>
           mset tr + mset te = mset samples \<and>
           (distinct samples \<longrightarrow> distinct tr \<and> distinct te \<and> set tr \<inter> set te = {})"
proof -
  let ?ys = "np_shuffle env samples"
  let ?n = "length samples"
  let ?p = "float_round env (of_nat ?n * ratio)"
  have len: "length ?ys = ?n"
    using perm by (metis size_mset)
  have "0 \<le> (of_nat ?n * ratio :: rat)" using ratio by simp
  with fl_mono fl_zero have p0: "0 \<le> ?p" by metis
  have "(of_nat ?n * ratio :: rat) \<le> of_nat ?n"
    using ratio by (simp add: mult_left_le)
  with fl_mono fl_len have pn: "?p \<le> of_nat ?n" by metis
  have k: "py_int_of_float ?p = \<lfloor>?p\<rfloor>" using p0 by (simp add: py_int_of_float_def)
  have f0: "0 \<le> \<lfloor>?p\<rfloor>" using p0 by simp
  have fn: "\<lfloor>?p\<rfloor> \<le> int ?n" using pn by (simp add: floor_le_iff) 
  have j: "slice_index \<lfloor>?p\<rfloor> (int ?n) = \<lfloor>?p\<rfloor>"
    using f0 fn by (simp add: slice_index_def)
  have eq: "partition_gt env ratio samples = (take (nat \<lfloor>?p\<rfloor>) ?ys, drop (nat \<lfloor>?p\<rfloor>) ?ys)"
    by (simp add: partition_gt_take_drop Let_def len k j)
  have l: "length (take (nat \<lfloor>?p\<rfloor>) ?ys) = nat \<lfloor>?p\<rfloor>"
    using fn f0 by (simp add: len)
  have m: "mset (take (nat \<lfloor>?p\<rfloor>) ?ys) + mset (drop (nat \<lfloor>?p\<rfloor>) ?ys) = mset samples"
    using perm by (metis append_take_drop_id mset_append)
  have d: "distinct samples \<longrightarrow> distinct (take (nat \<lfloor>?p\<rfloor>) ?ys) \<and> distinct (drop (nat \<lfloor>?p\<rfloor>) ?ys) \<and>
             set (take (nat \<lfloor>?p\<rfloor>) ?ys) \<inter> set (drop (nat \<lfloor>?p\<rfloor>) ?ys) = {}"
  proof
    assume "distinct samples"
    with perm have "distinct ?ys" by (metis mset_eq_imp_distinct_iff)
    then have "distinct (take (nat \<lfloor>?p\<rfloor>) ?ys @ drop (nat \<lfloor>?p\<rfloor>) ?ys)" by simp
    then show "distinct (take (nat \<lfloor>?p\<rfloor>) ?ys) \<and> distinct (drop (nat \<lfloor>?p\<rfloor>) ?ys) \<and>
             set (take (nat \<lfloor>?p\<rfloor>) ?ys) \<inter> set (drop (nat \<lfloor>?p\<rfloor>) ?ys) = {}"
      unfolding distinct_append by simp
  qed
  show ?thesis
    using eq l m d len by simp
qed

theorem partition_splits_shuffled_list_witness:
  "\<exists>tr te. partition_gt demo_env (9 / 10)
             [''a.png'', ''b.png'', ''c.png'', ''d.png'', ''e.png'', ''f.png'', ''g.png'', ''h.png'',
              ''i.png'', ''j.png''] = (tr, te) \<and>
     tr = [''j.png'', ''i.png'', ''h.png'', ''g.png'', ''f.png'', ''e.png'', ''d.png'', ''c.png'',
           ''b.png''] \<and>
     te = [''a.png''] \<and>
     length tr = 9 \<and> length tr + length te = 10"
proof -
  let ?xs = "[''a.png'', ''b.png'', ''c.png'', ''d.png'', ''e.png'', ''f.png'', ''g.png'', ''h.png'',
              ''i.png'', ''j.png'']"
  have perm: "mset (np_shuffle demo_env ?xs) = mset ?xs"
    by (simp add: demo_env_def)
  have r: "(0::pyfloat) < 9 / 10" "(9 / 10 :: pyfloat) \<le> 1" by simp_all
  have mono: "\<forall>x y. x \<le> y \<longrightarrow> float_round demo_env x \<le> float_round demo_env y"
    by (simp add: demo_env_def)
  have z: "float_round demo_env 0 = 0" by (simp add: demo_env_def)
  have l: "float_round demo_env (of_nat (length ?xs)) = of_nat (length ?xs)"
    by (simp add: demo_env_def)
  have f: "nat \<lfloor>float_round demo_env (of_nat (length ?xs) * (9 / 10))\<rfloor> = 9"
    by (simp add: demo_env_def)
  have s: "np_shuffle demo_env ?xs = rev ?xs" by (simp add: demo_env_def)
  from partition_splits_shuffled_list[OF perm r mono z l]
  show ?thesis unfolding f s by simp
qed

lemma and_then_emit: "and_then (emit evs) b = (evs @ fst b, snd b)"
  by (simp add: and_then_def emit_def)

text \<open>
  C3. The specification says both corpora receive the same scale parameter. Line 141 passes
  \<open>scale=scale\<close> to the train corpus; line 154 passes no \<open>scale\<close> to the test corpus,
  which is built with the constructor's default. In every run that gets as far as the
  corpora, the two constructor calls are in the trace with these arguments.
\<close>

theorem test_set_built_without_scale:
  assumes "\<not> (truthy (opt_load opts) \<and> opt_codec opts \<noteq> None)"
    and "resolve (opt_pad opts) (opt_spec opts) = Inr g"
    and "partition_gt env (opt_partition opts) (opt_ground_truth opts) = (tr_im, te_im)"
  shows "NewDataset TrainSet tr_im (gt_set_args opts g) \<in> set (fst (train env opts)) \<and>
         NewDataset TestSet te_im (test_set_args opts g) \<in> set (fst (train env opts)) \<and>
         a_scale (gt_set_args opts g) = Some (g_scale g) \<and>
         a_scale (test_set_args opts g) = None"
  using assms
  by (auto simp: train_def and_then_emit gt_set_args_def test_set_args_def)

theorem test_set_built_without_scale_witness:
  "NewDataset TrainSet [''b.png'']
      \<lparr>a_normalization = None, a_reorder = True, a_scale = Some (ScaleTuple 48 128),
       a_pad = Some 0, a_format = Some (0, 1, 2)\<rparr>
     \<in> set (fst (train demo_env (demo_opts\<lparr>opt_spec := ''[1,48,128,1]''\<rparr>))) \<and>
   NewDataset TestSet [''a.png'']
      \<lparr>a_normalization = None, a_reorder = True, a_scale = None,
       a_pad = Some 0, a_format = Some (0, 1, 2)\<rparr>
     \<in> set (fst (train demo_env (demo_opts\<lparr>opt_spec := ''[1,48,128,1]''\<rparr>)))"
proof -
  let ?opts = "demo_opts\<lparr>opt_spec := ''[1,48,128,1]''\<rparr>"
  let ?g = "\<lparr>g_batch = 1, g_height = 48, g_width = 128, g_channels = 1,
             g_format = (0, 1, 2), g_pad = 0, g_scale = ScaleTuple 48 128\<rparr>"
  have a: "\<not> (truthy (opt_load ?opts) \<and> opt_codec ?opts \<noteq> None)"
    by (simp add: demo_opts_def)
  have "resolve 16 ''[1,48,128,1]'' = Inr ?g" by code_simp
  then have r: "resolve (opt_pad ?opts) (opt_spec ?opts) = Inr ?g"
    by (simp add: demo_opts_def)
  have "partition_gt demo_env (1 / 2) [''a.png'', ''b.png''] = ([''b.png''], [''a.png''])"
    by (simp add: partition_gt_def demo_env_def py_slice_def slice_index_def py_int_of_float_def)
  then have p: "partition_gt demo_env (opt_partition ?opts) (opt_ground_truth ?opts) =
                  ([''b.png''], [''a.png''])"
    by (simp add: demo_opts_def)
  from test_set_built_without_scale[OF a r p] show ?thesis
    by (simp add: gt_set_args_def test_set_args_def demo_opts_def)
qed

section \<open>Properties of the command\<close>

text \<open>
  C8. When a model path is given (a path that exists is not the empty string) and a
  codec is given, \<open>train\<close> raises \<open>BadOptionUsage\<close> with an empty trace: no corpus is
  constructed and no sample is added.
\<close>

theorem codec_with_loaded_model_rejected:
  assumes "opt_load opts = Some path" and "path \<noteq> []" and "opt_codec opts = Some codec"
  shows "train env opts =
           ([], Some (BadOptionUsage [''codec'', ''codec option is not supported when loading model'']))"
  using assms by (simp add: train_def raises_def)

theorem codec_with_loaded_model_rejected_witness:
  "train demo_env (demo_opts\<lparr>opt_load := Some ''en.mlmodel'', opt_codec := Some ''codec.json''\<rparr>) =
     ([], Some (BadOptionUsage [''codec'', ''codec option is not supported when loading model'']))"
  using codec_with_loaded_model_rejected
          [of "demo_opts\<lparr>opt_load := Some ''en.mlmodel'', opt_codec := Some ''codec.json''\<rparr>"
              "''en.mlmodel''" "''codec.json''" demo_env]
  by simp








section \<open>Properties of the training loop\<close>

text \<open>
  C4. The specification says a network output whose dimension 2 is not 1 ends the loop with the
  geometry-mismatch error, reporting the actual dimension. Line 236 formats
  \<open>output.size()\<close> into the message, and \<open>output\<close> is the output path, a string: the
  batch ends with \<open>AttributeError\<close>, and \<open>KrakenInputException\<close> is never raised.
\<close>

theorem dimension_mismatch_raises_attribute_error:
  assumes "nn_forward env epoch trial = Inr shape" and "2 < length shape" and "shape ! 2 \<noteq> 1"
  shows "trial_body env optimizer output epoch trial = ([], Some AttributeError)"
  using assms by (simp add: trial_body_def tensor_size_dim_def raises_def)

theorem dimension_mismatch_raises_attribute_error_witness:
  "trial_body (demo_env\<lparr>nn_forward := (\<lambda>epoch trial. Inr [1, 10, 2, 20])\<rparr>)
      (Adam (1 / 1000) 0) ''model'' 0 0 = ([], Some AttributeError)"
  using dimension_mismatch_raises_attribute_error
          [of "demo_env\<lparr>nn_forward := (\<lambda>epoch trial. Inr [1, 10, 2, 20])\<rparr>" 0 0 "[1, 10, 2, 20]"
              "Adam (1 / 1000) 0" "''model''"]
  by simp

text \<open>
  The whole command on the concrete run, with a network whose output has height 2: it
  ends in the first batch of epoch 0.
\<close>

lemma train_dimension_mismatch_run:
  "train (demo_env\<lparr>nn_forward := (\<lambda>epoch trial. Inr [1, 10, 2, 20])\<rparr>) demo_opts =
     ([NewDataset TrainSet [''b.png'']
         \<lparr>a_normalization = None, a_reorder = True, a_scale = Some (ScaleInt 48),
          a_pad = Some 16, a_format = Some (1, 0, 2)\<rparr>,
       Add TrainSet ''b.png'',
       NewDataset TestSet [''a.png'']
         \<lparr>a_normalization = None, a_reorder = True, a_scale = None,
          a_pad = Some 16, a_format = Some (1, 0, 2)\<rparr>,
       Add TestSet ''a.png'', Encode None, NewModel ''1,1,0,48 Lbx100'',
       NewOptimizer (Adam (1 / 1000) 0), Epoch 0],
      Some AttributeError)"
  by code_simp

text \<open>
  C2. The specification says the report step is skipped for an empty test corpus. Lines 251--255
  have no such test: at a report boundary \<open>compute_error\<close> is called on the empty list
  of pairs, and when it counts 0 characters the division \<open>(c-e)/c\<close> raises
  \<open>ZeroDivisionError\<close>.
\<close>

theorem empty_test_set_report_divides_by_zero:
  assumes "0 < epoch" and "report \<noteq> 0" and "int epoch mod report = 0"
    and "compute_error env epoch [] = Inr (0, e)"
  shows "report_part env report [] epoch = ([], Some ZeroDivisionError)"
  using assms by (simp add: report_part_def raises_def)

theorem empty_test_set_report_divides_by_zero_witness:
  "report_part demo_env 1 [] 1 = ([], Some ZeroDivisionError)"
  using empty_test_set_report_divides_by_zero[of 1 1 demo_env 0]
  by (simp add: demo_env_def)

text \<open>
  The whole command on the concrete run with \<open>--partition 1\<close>: the test list is empty
  and the run ends at the first report boundary, epoch 1.
\<close>

lemma train_empty_test_set_run:
  "train demo_env (demo_opts\<lparr>opt_partition := 1\<rparr>) =
     ([NewDataset TrainSet [''b.png'', ''a.png'']
         \<lparr>a_normalization = None, a_reorder = True, a_scale = Some (ScaleInt 48),
          a_pad = Some 16, a_format = Some (1, 0, 2)\<rparr>,
       Add TrainSet ''b.png'', Add TrainSet ''a.png'',
       NewDataset TestSet []
         \<lparr>a_normalization = None, a_reorder = True, a_scale = None,
          a_pad = Some 16, a_format = Some (1, 0, 2)\<rparr>,
       Encode None, NewModel ''1,1,0,48 Lbx100'', NewOptimizer (Adam (1 / 1000) 0),
       Epoch 0, OptimizerStep 0 0, OptimizerStep 0 1,
       Epoch 1, OptimizerStep 1 0, OptimizerStep 1 1,
       SaveFailed ''model'' 1 (External ''disk full'')],
      Some ZeroDivisionError)"
  by code_simp

lemma snd_and_then: "snd (and_then a b) = None \<longleftrightarrow> snd a = None \<and> snd b = None"
  by (auto simp: and_then_def split: option.splits)

lemma fst_and_then: "snd a = None \<Longrightarrow> fst (and_then a b) = fst a @ fst b"
  by (simp add: and_then_def)

lemma epochs_of_append: "epochs_of (xs @ ys) = epochs_of xs @ epochs_of ys"
  by (induction xs rule: epochs_of.induct) simp_all

lemma epochs_of_steps: "epochs_of (map (OptimizerStep ep) ts) = []"
  by (induction ts) simp_all

lemma trial_body_normal:
  "snd (trial_body env optimizer output ep t) = None \<Longrightarrow>
   fst (trial_body env optimizer output ep t) = [OptimizerStep ep t]"
  by (auto simp: trial_body_def raises_def emit_def split: sum.splits if_splits option.splits)

lemma trials_normal:
  "snd (trials env optimizer output ep ts) = None \<Longrightarrow>
   fst (trials env optimizer output ep ts) = map (OptimizerStep ep) ts"
  by (induction ts) (simp_all add: emit_def snd_and_then fst_and_then trial_body_normal)

lemma save_part_normal:
  assumes "savefreq \<noteq> 0" and "\<forall>e. nn_save_model env output ep = Some e \<longrightarrow> is_Exception e"
  shows "snd (save_part env output savefreq ep) = None"
  using assms by (auto simp: save_part_def emit_def raises_def split: option.splits)

lemma save_part_epochs: "epochs_of (fst (save_part env output savefreq ep)) = []"
  by (auto simp: save_part_def emit_def raises_def split: option.splits)

lemma save_part_logged:
  assumes "0 < ep" and "savefreq \<noteq> 0" and "py_float_mod (of_nat ep) savefreq = 0"
    and "nn_save_model env output ep = Some e" and "is_Exception e"
  shows "save_part env output savefreq ep = ([SaveFailed output ep e], None)"
  using assms by (simp add: save_part_def emit_def)

lemma report_part_epochs: "epochs_of (fst (report_part env report te ep)) = []"
  by (auto simp: report_part_def emit_def raises_def split: sum.splits prod.splits)

lemma epochs_loop_survives_save_failures:
  assumes "savefreq \<noteq> 0"
    and "\<forall>ep\<in>set eps. snd (trials env optimizer output ep [0..<n]) = None"
    and "\<forall>ep\<in>set eps. snd (report_part env report te ep) = None"
    and "\<forall>ep\<in>set eps. \<forall>e. nn_save_model env output ep = Some e \<longrightarrow> is_Exception e"
  shows "snd (epochs_loop env optimizer output savefreq report n te eps) = None \<and>
         epochs_of (fst (epochs_loop env optimizer output savefreq report n te eps)) = eps \<and>
         (\<forall>ep\<in>set eps. \<forall>t<n. OptimizerStep ep t
             \<in> set (fst (epochs_loop env optimizer output savefreq report n te eps))) \<and>
         (\<forall>ep\<in>set eps. \<forall>e. 0 < ep \<and> py_float_mod (of_nat ep) savefreq = 0 \<and>
               nn_save_model env output ep = Some e \<longrightarrow>
             SaveFailed output ep e
               \<in> set (fst (epochs_loop env optimizer output savefreq report n te eps)))"
  using assms(2-4)
proof (induction eps)
  case Nil
  then show ?case by (simp add: emit_def)
next
  case (Cons ep eps)
  let ?T = "trials env optimizer output ep [0..<n]"
  let ?S = "save_part env output savefreq ep"
  let ?R = "report_part env report te ep"
  let ?L = "epochs_loop env optimizer output savefreq report n te eps"
  from Cons.prems have t: "snd ?T = None" and r: "snd ?R = None"
    and c: "\<forall>e. nn_save_model env output ep = Some e \<longrightarrow> is_Exception e"
    by simp_all
  from assms(1) c have s: "snd ?S = None" by (rule save_part_normal)
  from Cons have ih: "snd ?L = None" "epochs_of (fst ?L) = eps"
    "\<forall>ep\<in>set eps. \<forall>t<n. OptimizerStep ep t \<in> set (fst ?L)"
    "\<forall>ep\<in>set eps. \<forall>e. 0 < ep \<and> py_float_mod (of_nat ep) savefreq = 0 \<and>
               nn_save_model env output ep = Some e \<longrightarrow> SaveFailed output ep e \<in> set (fst ?L)"
    by simp_all
  have ev: "fst (epochs_loop env optimizer output savefreq report n te (ep # eps)) =
              Epoch ep # map (OptimizerStep ep) [0..<n] @ fst ?S @ fst ?R @ fst ?L"
    using t s r ih(1)
    by (simp add: fst_and_then snd_and_then emit_def trials_normal)
  have ok: "snd (epochs_loop env optimizer output savefreq report n te (ep # eps)) = None"
    using t s r ih(1) by (simp add: snd_and_then emit_def)
  have logged: "SaveFailed output ep e \<in> set (fst ?S)"
    if "0 < ep" "py_float_mod (of_nat ep) savefreq = 0" "nn_save_model env output ep = Some e" for e
    using save_part_logged[OF that(1) assms(1) that(2) that(3)] c that(3) by simp
  show ?case
    unfolding ev
    using ok ih logged
    by (auto simp: ev epochs_of_append epochs_of_steps save_part_epochs report_part_epochs)
qed

text \<open>
  C7. Let the batches and the report steps of the epochs below \<open>N\<close> raise nothing, the
  save frequency be non-zero, and every exception of \<open>save_model\<close> be below
  \<open>Exception\<close>. Then the loop over \<open>range(N)\<close> ends normally whichever saves fail, it
  goes through the epochs \<open>0, ..., N - 1\<close> in order, every batch of every epoch takes its
  optimizer step, and each save that fails at a save boundary is logged.
\<close>

theorem save_failure_is_not_fatal:
  assumes "savefreq \<noteq> 0"
    and "\<forall>ep<N. snd (trials env optimizer output ep [0..<n]) = None"
    and "\<forall>ep<N. snd (report_part env report te ep) = None"
    and "\<forall>ep<N. \<forall>e. nn_save_model env output ep = Some e \<longrightarrow> is_Exception e"
  shows "snd (epochs_loop env optimizer output savefreq report n te [0..<N]) = None \<and>
         epochs_of (fst (epochs_loop env optimizer output savefreq report n te [0..<N])) = [0..<N] \<and>
         (\<forall>ep<N. \<forall>t<n. OptimizerStep ep t
             \<in> set (fst (epochs_loop env optimizer output savefreq report n te [0..<N]))) \<and>
         (\<forall>ep<N. \<forall>e. 0 < ep \<and> py_float_mod (of_nat ep) savefreq = 0 \<and>
               nn_save_model env output ep = Some e \<longrightarrow>
             SaveFailed output ep e
               \<in> set (fst (epochs_loop env optimizer output savefreq report n te [0..<N])))"
  using epochs_loop_survives_save_failures[where eps = "[0..<N]"] assms
  by simp

theorem save_failure_is_not_fatal_witness:
  "snd (epochs_loop demo_env (Adam (1 / 1000) 0) ''model'' 1 1 1 [''a.png''] [0..<3]) = None \<and>
   epochs_of (fst (epochs_loop demo_env (Adam (1 / 1000) 0) ''model'' 1 1 1 [''a.png''] [0..<3])) = [0..<3] \<and>
   SaveFailed ''model'' 1 (External ''disk full'')
     \<in> set (fst (epochs_loop demo_env (Adam (1 / 1000) 0) ''model'' 1 1 1 [''a.png''] [0..<3])) \<and>
   OptimizerStep 2 0
     \<in> set (fst (epochs_loop demo_env (Adam (1 / 1000) 0) ''model'' 1 1 1 [''a.png''] [0..<3]))"
proof -
  have f: "(1::pyfloat) \<noteq> 0" by simp
  have t: "\<forall>ep<3. snd (trials demo_env (Adam (1 / 1000) 0) ''model'' ep [0..<1]) = None"
    by (simp add: demo_env_def trial_body_def tensor_size_dim_def emit_def and_then_def)
  have r: "\<forall>ep<3. snd (report_part demo_env 1 [''a.png''] ep) = None"
    by (simp add: demo_env_def report_part_def emit_def)
  have c: "\<forall>ep<3. \<forall>e. nn_save_model demo_env ''model'' ep = Some e \<longrightarrow> is_Exception e"
    by (auto simp: demo_env_def)
  have m: "py_float_mod (of_nat 1) 1 = 0" by (simp add: py_float_mod_def)
  have s: "nn_save_model demo_env ''model'' 1 = Some (External ''disk full'')"
    by (simp add: demo_env_def)
  from save_failure_is_not_fatal[OF f t r c] m s
  show ?thesis by force
qed

end
